theory Spec2Isabelle
  imports Main
begin

section \<open>Python values used by the request pipeline\<close>

text \<open>
  The values of type \<open>Any\<close> that travel in \<open>params\<close>, \<open>json_data\<close>, \<open>data\<close> and
  \<open>files\<close>. A \<open>Dict[str, Any]\<close> is an association list in insertion order; an
  \<open>Optional\<close> argument is an \<open>option\<close>. The keys of a nested dict are any values, and
  \<open>PObject\<close> is any other Python object (a set, a \<open>bytes\<close>, a \<open>datetime\<close>), named by
  its \<open>repr\<close>: \<open>Any\<close> admits values that \<open>json.dumps\<close> does not serialise.
\<close>

datatype pyval =
    PNone
  | PBool bool
  | PInt int
  | PStr string
  | PList "pyval list"
  | PDict "(pyval \<times> pyval) list"
  | PObject string

type_synonym pydict = "(string \<times> pyval) list"

type_synonym strdict = "(string \<times> string) list"

text \<open>
  Truthiness of an \<open>Optional[Dict]\<close>, as tested by \<open>if json_data:\<close> and \<open>elif data:\<close>:
  \<open>None\<close> and the empty dict are both false.
\<close>

fun truthy :: "pydict option \<Rightarrow> bool" where
  "truthy None = False"
| "truthy (Some []) = False"
| "truthy (Some (kv # kvs)) = True"

text \<open>
  \<open>str.upper\<close> on the characters of a method name. Characters are 8-bit; the ASCII
  letters \<open>a\<close>..\<open>z\<close> go to \<open>A\<close>..\<open>Z\<close> and every other character is left alone (no
  character outside \<open>a\<close>..\<open>z\<close>, \<open>A\<close>..\<open>Z\<close> of that range is upper-cased by Python to an
  ASCII letter, so the comparison with \<open>"GET"\<close> is the source's).
\<close>

definition upper_char :: "char \<Rightarrow> char" where
  "upper_char c =
     (let n = (of_char c :: nat)
      in if 97 \<le> n \<and> n \<le> 122 then char_of (n - 32) else c)"

definition upper :: "string \<Rightarrow> string" where
  "upper s = map upper_char s"

section \<open>Requests, responses and exceptions\<close>

text \<open>The arguments of \<open>HttpClient.request\<close>.\<close>

record request =
  "method" :: string
  url :: string
  headers :: "strdict option"
  params :: "pydict option"
  json_data :: "pydict option"
  data :: "pydict option"
  files :: "pydict option"

text \<open>What the pipeline reads of an \<open>httpx.Response\<close>: the status code, the headers,
  the body bytes and the request the response answers.\<close>

record response =
  status_code :: int
  response_headers :: strdict
  content :: string
  origin :: request

text \<open>
  Exceptions by the classes that the \<open>except\<close> clauses of \<open>request\<close> tell apart.
  \<open>TypeError\<close> is what \<open>json.dumps\<close> raises, \<open>OtherException\<close> is any other subclass
  of \<open>Exception\<close> (an \<open>OSError\<close>, an \<open>httpx.TooManyRedirects\<close>, ...); \<open>NonException\<close> is a \<open>BaseException\<close> that is not an
  \<open>Exception\<close> (\<open>KeyboardInterrupt\<close>, \<open>SystemExit\<close>), which no clause catches.
  The message keeps the pieces that the f-strings of the source put together.
\<close>

datatype exc_class =
    TimeoutException
  | ConnectError
  | NetworkError
  | HTTPStatusError
  | RequestError
  | TypeError
  | OtherException
  | NonException

datatype message =
    Text string
  | RequestTimeoutAfter int
  | FailedToConnectTo string message
  | NetworkErrorOccurred message
  | UnexpectedErrorDuringRequest message

datatype exc = Exc exc_class message

section \<open>The collaborators of the client\<close>

text \<open>
  The argument tuple of \<open>get_cached_response\<close>: method, url, headers, params, body.
\<close>

type_synonym lookup_args =
  "string \<times> string \<times> strdict option \<times> pydict option \<times> string option"

text \<open>
  \<open>HttpClient.request\<close> calls into the response cache (\<open>talkie.utils.cache\<close>), into
  \<open>httpx\<close> and into the standard library. They are parameters of the model; \<open>'c\<close> is
  the state of the process-wide cache (index and payloads). A cache operation returns
  the cache state it leaves behind together with its outcome; the type leaves room for
  an operation that raises. \<open>json.dumps(json_data, sort_keys=True)\<close> raises a
  \<open>TypeError\<close> for a value it cannot serialise and for dict keys it cannot sort, so its
  result is a sum; \<open>str\<close> of a dict is total.
\<close>

record 'c collaborators =
  get_cached_response :: "'c \<Rightarrow> lookup_args \<Rightarrow> (exc + response option) \<times> 'c"
  cache_response :: "'c \<Rightarrow> response \<Rightarrow> exc option \<times> 'c"
  client_request :: "request \<Rightarrow> exc + response"
  raise_for_status :: "response \<Rightarrow> exc option"
  json_dumps_sorted :: "pydict \<Rightarrow> exc + string"
  str_of_dict :: "pydict \<Rightarrow> string"

section \<open>HttpClient (talkie/core/client.py)\<close>

text \<open>\<open>self.cache\<close> is either \<open>None\<close> or a reference to the process-wide cache
  returned by \<open>get_cache()\<close>; a cache object, like a response object, is truthy.\<close>

datatype cache_ref = GlobalCache

record HttpClient =
  timeout :: int
  verify :: bool
  follow_redirects :: bool
  enable_cache :: bool
  max_connections :: int
  max_keepalive_connections :: int
  cache :: "cache_ref option"

text \<open>\<open>HttpClient.__init__\<close> without a client certificate (whose validation does not
  touch the cache).\<close>

definition HttpClient_init :: "int \<Rightarrow> bool \<Rightarrow> bool \<Rightarrow> bool \<Rightarrow> int \<Rightarrow> int \<Rightarrow> HttpClient" where
  "HttpClient_init t v f e mc mk =
     \<lparr> timeout = t, verify = v, follow_redirects = f, enable_cache = e,
       max_connections = mc, max_keepalive_connections = mk,
       cache = (if e then Some GlobalCache else None) \<rparr>"

text \<open>The guard \<open>self.cache and self.enable_cache\<close>.\<close>

definition cache_active :: "HttpClient \<Rightarrow> bool" where
  "cache_active cl = (cache cl \<noteq> None \<and> enable_cache cl)"

text \<open>
  The body that enters the cache key (\<open>cache_body\<close> in the source), or the exception
  that \<open>json.dumps\<close> raises while it is built.
\<close>

definition cache_body :: "'c collaborators \<Rightarrow> request \<Rightarrow> exc + string option" where
  "cache_body env rq =
     (if truthy (json_data rq) then
        (case json_data rq of
           Some d \<Rightarrow> (case json_dumps_sorted env d of Inl e \<Rightarrow> Inl e | Inr s \<Rightarrow> Inr (Some s))
         | None \<Rightarrow> Inr None)
      else if truthy (data rq) then
        (case data rq of Some d \<Rightarrow> Inr (Some (str_of_dict env d)) | None \<Rightarrow> Inr None)
      else Inr None)"

text \<open>The arguments with which \<open>get_cached_response\<close> is called, once the body is built.\<close>

definition lookup_arguments :: "'c collaborators \<Rightarrow> request \<Rightarrow> exc + lookup_args" where
  "lookup_arguments env rq =
     (case cache_body env rq of
        Inl e \<Rightarrow> Inl e
      | Inr body \<Rightarrow> Inr (method rq, url rq, headers rq, params rq, body))"

text \<open>
  The four \<open>except\<close> clauses around the network call, in the source's order: what
  leaves \<open>request\<close> when exception \<open>e\<close> is raised inside the \<open>try\<close>.
\<close>

fun except_clauses :: "HttpClient \<Rightarrow> request \<Rightarrow> exc \<Rightarrow> exc" where
  "except_clauses cl rq (Exc TimeoutException m) =
     Exc RequestError (RequestTimeoutAfter (timeout cl))"
| "except_clauses cl rq (Exc ConnectError m) =
     Exc RequestError (FailedToConnectTo (url rq) m)"
| "except_clauses cl rq (Exc NetworkError m) =
     Exc RequestError (NetworkErrorOccurred m)"
| "except_clauses cl rq (Exc NonException m) = Exc NonException m"
| "except_clauses cl rq (Exc c m) =
     Exc RequestError (UnexpectedErrorDuringRequest m)"

text \<open>What the pipeline does, in order; the trace of a run of \<open>request\<close>.\<close>

datatype event =
    Lookup lookup_args
  | NetworkCall request
  | Store response

text \<open>The condition under which the live response is handed to \<open>cache_response\<close>.\<close>

definition store_condition :: "HttpClient \<Rightarrow> request \<Rightarrow> response \<Rightarrow> bool" where
  "store_condition cl rq resp =
     (cache_active cl \<and> 200 \<le> status_code resp \<and> status_code resp < 300 \<and>
      upper (method rq) = ''GET'' \<and> length (content resp) < 1024 * 1024)"

text \<open>\<open>response.raise_for_status()\<close> and the \<open>return response\<close> after it.\<close>

definition check_status :: "'c collaborators \<Rightarrow> HttpClient \<Rightarrow> request \<Rightarrow> response \<Rightarrow> exc + response" where
  "check_status env cl rq resp =
     (case raise_for_status env resp of
        Some e \<Rightarrow> Inl (except_clauses cl rq e)
      | None \<Rightarrow> Inr resp)"

text \<open>The body of the \<open>try\<close>: network call, store step, status check.\<close>

definition execute :: "'c collaborators \<Rightarrow> HttpClient \<Rightarrow> 'c \<Rightarrow> request \<Rightarrow> (exc + response) \<times> 'c \<times> event list" where
  "execute env cl c rq =
     (case client_request env rq of
        Inl e \<Rightarrow> (Inl (except_clauses cl rq e), c, [NetworkCall rq])
      | Inr resp \<Rightarrow>
          if store_condition cl rq resp then
            (case cache_response env c resp of
               (Some e, c') \<Rightarrow>
                 (Inl (except_clauses cl rq e), c', [NetworkCall rq, Store resp])
             | (None, c') \<Rightarrow>
                 (check_status env cl rq resp, c', [NetworkCall rq, Store resp]))
          else (check_status env cl rq resp, c, [NetworkCall rq]))"

text \<open>
  \<open>HttpClient.request\<close>: the outcome (the returned response or the exception that
  leaves the method), the cache state afterwards and the trace. The cache body and the
  lookup stand before the \<open>try\<close>, so an exception raised there leaves the method as it
  is, before any call of the cache or of the network.
\<close>

definition request :: "'c collaborators \<Rightarrow> HttpClient \<Rightarrow> 'c \<Rightarrow> request \<Rightarrow> (exc + response) \<times> 'c \<times> event list" where
  "request env cl c rq =
     (if cache_active cl then
        (case lookup_arguments env rq of
           Inl e \<Rightarrow> (Inl e, c, [])
         | Inr args \<Rightarrow>
             (case get_cached_response env c args of
                (Inl e, c') \<Rightarrow> (Inl e, c', [Lookup args])
              | (Inr (Some cached), c') \<Rightarrow> (Inr cached, c', [Lookup args])
              | (Inr None, c') \<Rightarrow>
                  (case execute env cl c' rq of
                     (out, c'', tr) \<Rightarrow> (out, c'', Lookup args # tr))))
      else execute env cl c rq)"

definition is_network_call :: "event \<Rightarrow> bool" where
  "is_network_call ev = (case ev of NetworkCall _ \<Rightarrow> True | _ \<Rightarrow> False)"

definition is_lookup :: "event \<Rightarrow> bool" where
  "is_lookup ev = (case ev of Lookup _ \<Rightarrow> True | _ \<Rightarrow> False)"

definition is_store :: "event \<Rightarrow> bool" where
  "is_store ev = (case ev of Store _ \<Rightarrow> True | _ \<Rightarrow> False)"

section \<open>The response cache (talkie/utils/cache.py)\<close>

text \<open>
  Modelled from the spec: the declaration of \<open>CacheConfig\<close>, which lives in
  \<open>talkie/utils/cache.py\<close>. The fields are those of the spec's data model and of
  \<open>TestCacheConfig\<close>; the numeric fields are Python integers.
\<close>

record CacheConfig =
  enabled :: bool
  default_ttl :: int
  max_entries :: int
  max_size_mb :: int
  cache_get :: bool
  cache_post :: bool
  cache_graphql :: bool
  cache_dir :: string

text \<open>The defaults, as \<open>test_default_config\<close> asserts them.\<close>

definition CacheConfig_default :: "string \<Rightarrow> CacheConfig" where
  "CacheConfig_default dir =
     \<lparr> enabled = True, default_ttl = 300, max_entries = 1000, max_size_mb = 100,
       cache_get = True, cache_post = False, cache_graphql = True, cache_dir = dir \<rparr>"

text \<open>
  Modelled from the spec: \<open>CacheEntry\<close> (section 3), one cached exchange; timestamps
  are epoch seconds.
\<close>

record CacheEntry =
  entry_url :: string
  entry_method :: string
  entry_headers :: "strdict option"
  entry_params :: "pydict option"
  entry_body :: "string option"
  entry_status_code :: int
  entry_response_headers :: strdict
  entry_response_body :: string
  cached_at :: int
  expires_at :: int

text \<open>
  Modelled from the spec: an entry of the cache index, the size in bytes next to the
  (inlined) payload; the index is a dict from cache key to such entries, kept in
  insertion order with one pair per key.
\<close>

record index_entry =
  size_bytes :: nat
  payload :: CacheEntry

type_synonym cache_index = "(string \<times> index_entry) list"

text \<open>
  Modelled from the spec: the state of \<open>ResponseCache\<close>, the active configuration and
  the index.
\<close>

record ResponseCache =
  config :: CacheConfig
  index :: cache_index

text \<open>The kinds of GraphQL operation that the policy tells apart.\<close>

datatype graphql_op = Query | Mutation | Subscription

text \<open>
  Modelled from the spec: the helpers of the cache of which the spec fixes the contract
  and not the computation. They are parameters: the fingerprint of section 4.2 (a
  cryptographic hash), the request attributes that \<open>cache_response\<close> reads back from a
  response, and the serialized size of an entry.
\<close>

record cache_helpers =
  fingerprint :: "lookup_args \<Rightarrow> string"
  request_attributes :: "response \<Rightarrow> lookup_args"
  serialized_size :: "CacheEntry \<Rightarrow> nat"

text \<open>Substring search on the raw text of a header value or of a body.\<close>

fun starts_with :: "string \<Rightarrow> string \<Rightarrow> bool" where
  "starts_with [] s = True"
| "starts_with (k # ks) [] = False"
| "starts_with (k # ks) (c # cs) = (k = c \<and> starts_with ks cs)"

fun contains :: "string \<Rightarrow> string \<Rightarrow> bool" where
  "contains k [] = starts_with k []"
| "contains k (c # cs) = (starts_with k (c # cs) \<or> contains k cs)"

text \<open>
  Modelled from the spec: "search for the operation keyword preceding the opening
  brace" (section 9): the keyword occurs in the body and an opening brace follows it.
\<close>

fun keyword_before_brace :: "string \<Rightarrow> string \<Rightarrow> bool" where
  "keyword_before_brace k [] = False"
| "keyword_before_brace k (c # cs) =
     ((starts_with k (c # cs) \<and> CHR 0x7B \<in> set (drop (length k) (c # cs)))
      \<or> keyword_before_brace k cs)"

text \<open>
  Modelled from the spec: the heuristic of rule 3, "presence of the literal keyword
  \<open>query\<close> as the operation type rather than \<open>mutation\<close> or \<open>subscription\<close>", by
  inspection of the raw body: a body is a query only when it is neither of the other
  two. An absent body is no GraphQL payload.
\<close>

definition graphql_operation :: "string option \<Rightarrow> graphql_op option" where
  "graphql_operation body =
     (case body of
        None \<Rightarrow> None
      | Some b \<Rightarrow>
          if keyword_before_brace ''mutation'' b then Some Mutation
          else if keyword_before_brace ''subscription'' b then Some Subscription
          else if keyword_before_brace ''query'' b then Some Query
          else None)"

text \<open>
  Modelled from the spec: "content-type indicates JSON": the request headers carry a
  \<open>Content-Type\<close> header (in any letter case) whose value mentions \<open>json\<close>.
\<close>

definition json_content_type :: "strdict option \<Rightarrow> bool" where
  "json_content_type hdrs =
     (case hdrs of
        None \<Rightarrow> False
      | Some hs \<Rightarrow>
          list_ex (\<lambda>kv. upper (fst kv) = ''CONTENT-TYPE'' \<and> contains ''json'' (snd kv)) hs)"

text \<open>
  Modelled from the spec: \<open>should_cache_request\<close> (section 4.3), the five rules in
  their order and in their words; rule 4 excludes a GraphQL mutation.
\<close>

definition should_cache_request :: "CacheConfig \<Rightarrow> string \<Rightarrow> strdict option \<Rightarrow> string option \<Rightarrow> bool" where
  "should_cache_request cfg m hdrs body =
     (if \<not> enabled cfg then False
      else if m = ''GET'' \<and> cache_get cfg then True
      else if m = ''POST'' \<and> json_content_type hdrs
              \<and> graphql_operation body = Some Query \<and> cache_graphql cfg then True
      else if (m = ''POST'' \<or> m = ''PUT'' \<or> m = ''PATCH'') \<and> cache_post cfg
              \<and> graphql_operation body \<noteq> Some Mutation then True
      else False)"

text \<open>Dict assignment and deletion on the index.\<close>

fun dict_set :: "string \<Rightarrow> index_entry \<Rightarrow> cache_index \<Rightarrow> cache_index" where
  "dict_set k v [] = [(k, v)]"
| "dict_set k v ((k', v') # kvs) =
     (if k' = k then (k, v) # kvs else (k', v') # dict_set k v kvs)"

definition dict_del :: "string \<Rightarrow> cache_index \<Rightarrow> cache_index" where
  "dict_del k kvs = filter (\<lambda>kv. fst kv \<noteq> k) kvs"

definition total_size :: "cache_index \<Rightarrow> nat" where
  "total_size idx = sum_list (map (\<lambda>kv. size_bytes (snd kv)) idx)"

text \<open>
  Modelled from the spec: the two bounds of the index, the entry count against
  \<open>max_entries\<close> and the aggregate size in bytes against \<open>max_size_mb\<close> megabytes of
  1024 * 1024 bytes.
\<close>

definition over_bounds :: "CacheConfig \<Rightarrow> cache_index \<Rightarrow> bool" where
  "over_bounds cfg idx =
     (int (length idx) > max_entries cfg
      \<or> int (total_size idx) > max_size_mb cfg * (1024 * 1024))"

text \<open>The entry cached least recently (the first of them in index order).\<close>

definition oldest_key :: "cache_index \<Rightarrow> string" where
  "oldest_key idx = fst (arg_min_list (\<lambda>kv. cached_at (payload (snd kv))) idx)"

definition remove_oldest :: "cache_index \<Rightarrow> cache_index" where
  "remove_oldest idx = dict_del (oldest_key idx) idx"

text \<open>
  Modelled from the spec: the eviction that follows an insert, "evicts the
  least-recently-cached entries (oldest \<open>cached_at\<close> first) until both bounds are
  satisfied"; an empty index has nothing left to evict.
\<close>

function evict :: "CacheConfig \<Rightarrow> cache_index \<Rightarrow> cache_index" where
  "evict cfg idx =
     (if idx \<noteq> [] \<and> over_bounds cfg idx then evict cfg (remove_oldest idx) else idx)"
  by pat_completeness auto
termination
proof (relation "measure (\<lambda>(cfg, idx). length idx)")
  show "wf (measure (\<lambda>(cfg, idx). length idx))"
    by simp
next
  fix cfg :: CacheConfig and idx :: cache_index
  assume a: "idx \<noteq> [] \<and> over_bounds cfg idx"
  let ?m = "arg_min_list (\<lambda>kv. cached_at (payload (snd kv))) idx"
  have "?m \<in> set idx"
    using a by (simp add: arg_min_list_in)
  moreover have "\<not> (fst ?m \<noteq> oldest_key idx)"
    by (simp add: oldest_key_def)
  ultimately have "length (remove_oldest idx) < length idx"
    unfolding remove_oldest_def dict_del_def
    by (intro length_filter_less) auto
  then show "((cfg, remove_oldest idx), (cfg, idx)) \<in> measure (\<lambda>(cfg, idx). length idx)"
    by simp
qed

declare evict.simps [simp del]

text \<open>The ceiling on the size of a response body, 1 MiB.\<close>

definition max_response_size :: nat where
  "max_response_size = 1024 * 1024"

text \<open>
  Modelled from the spec: when \<open>cache_response\<close> (section 4.4) goes ahead: the policy
  admits the originating request, the status is 2xx and the body is not above the
  ceiling.
\<close>

definition eligible :: "cache_helpers \<Rightarrow> CacheConfig \<Rightarrow> response \<Rightarrow> bool" where
  "eligible H cfg resp =
     (case request_attributes H resp of
        (m, u, hdrs, ps, body) \<Rightarrow>
          should_cache_request cfg m hdrs body
          \<and> 200 \<le> status_code resp \<and> status_code resp < 300
          \<and> \<not> length (content resp) > max_response_size)"

definition key_of :: "cache_helpers \<Rightarrow> response \<Rightarrow> string" where
  "key_of H resp = fingerprint H (request_attributes H resp)"

definition new_entry :: "cache_helpers \<Rightarrow> CacheConfig \<Rightarrow> response \<Rightarrow> int \<Rightarrow> int option \<Rightarrow> index_entry" where
  "new_entry H cfg resp now ttl =
     (case request_attributes H resp of
        (m, u, hdrs, ps, body) \<Rightarrow>
          (let e = \<lparr> entry_url = u, entry_method = m, entry_headers = hdrs,
                     entry_params = ps, entry_body = body,
                     entry_status_code = status_code resp,
                     entry_response_headers = response_headers resp,
                     entry_response_body = content resp,
                     cached_at = now,
                     expires_at = now + (case ttl of Some t \<Rightarrow> t | None \<Rightarrow> default_ttl cfg) \<rparr>
           in \<lparr> size_bytes = serialized_size H e, payload = e \<rparr>))"

text \<open>
  Modelled from the spec: \<open>cache_response(response, ttl=None)\<close> at time \<open>now\<close>: a
  no-op for a response that is not eligible, otherwise the insert by key followed at
  once by the eviction.
\<close>

definition cache_response_spec :: "cache_helpers \<Rightarrow> ResponseCache \<Rightarrow> response \<Rightarrow> int \<Rightarrow> int option \<Rightarrow> ResponseCache" where
  "cache_response_spec H c resp now ttl =
     (if \<not> eligible H (config c) resp then c
      else c \<lparr> index :=
             evict (config c)
               (dict_set (key_of H resp) (new_entry H (config c) resp now ttl) (index c)) \<rparr>)"






text \<open>Storing a sequence of responses, each at its own time, with the default TTL.\<close>

definition store_each :: "cache_helpers \<Rightarrow> ResponseCache \<Rightarrow> (response \<times> int) list \<Rightarrow> ResponseCache" where
  "store_each H c rs = foldl (\<lambda>c' (resp, now). cache_response_spec H c' resp now None) c rs"

text \<open>Modelled from the spec: \<open>clear_cache\<close> empties the index.\<close>

definition clear_cache :: "ResponseCache \<Rightarrow> ResponseCache" where
  "clear_cache c = c \<lparr> index := [] \<rparr>"

text \<open>
  Modelled from the spec: \<open>set_cache_config\<close> (section 4.5) installs a configuration by
  replacing the active one in whole; the stored entries are left alone.
\<close>

definition set_cache_config :: "CacheConfig \<Rightarrow> ResponseCache \<Rightarrow> ResponseCache" where
  "set_cache_config new c = c \<lparr> config := new \<rparr>"

section \<open>The cache command (talkie/cli/main.py)\<close>

text \<open>The options of \<open>talkie cache\<close>; an option that was not given is \<open>None\<close>.\<close>

record cache_options =
  opt_ttl :: "int option"
  opt_max_entries :: "int option"
  opt_max_size :: "int option"
  opt_enable :: "bool option"
  opt_cache_get :: "bool option"
  opt_cache_graphql :: "bool option"

definition no_options :: cache_options where
  "no_options =
     \<lparr> opt_ttl = None, opt_max_entries = None, opt_max_size = None, opt_enable = None,
       opt_cache_get = None, opt_cache_graphql = None \<rparr>"

text \<open>
  \<open>new_config_data\<close>: the dump of the current configuration with each given option
  written over its field, in the source's order.
\<close>

definition new_config_data :: "cache_options \<Rightarrow> CacheConfig \<Rightarrow> CacheConfig" where
  "new_config_data opts current =
     (let d0 = current;
          d1 = (case opt_ttl opts of Some v \<Rightarrow> d0 \<lparr> default_ttl := v \<rparr> | None \<Rightarrow> d0);
          d2 = (case opt_max_entries opts of Some v \<Rightarrow> d1 \<lparr> max_entries := v \<rparr> | None \<Rightarrow> d1);
          d3 = (case opt_max_size opts of Some v \<Rightarrow> d2 \<lparr> max_size_mb := v \<rparr> | None \<Rightarrow> d2);
          d4 = (case opt_enable opts of Some v \<Rightarrow> d3 \<lparr> enabled := v \<rparr> | None \<Rightarrow> d3);
          d5 = (case opt_cache_get opts of Some v \<Rightarrow> d4 \<lparr> cache_get := v \<rparr> | None \<Rightarrow> d4);
          d6 = (case opt_cache_graphql opts of Some v \<Rightarrow> d5 \<lparr> cache_graphql := v \<rparr> | None \<Rightarrow> d5)
      in d6)"

text \<open>
  \<open>cache_management\<close>: the exit status (\<open>None\<close> for a normal return, \<open>Some 1\<close> for
  \<open>sys.exit(1)\<close>) and the cache afterwards; console output is left out. The constructor
  \<open>CacheConfig(**new_config_data)\<close> may reject its arguments (the spec's
  ConfigurationError); which configurations it accepts is the parameter \<open>accepts\<close>. A
  rejection is caught by \<open>except Exception\<close>, which exits with 1 before anything is
  installed.
\<close>

definition cache_management :: "(CacheConfig \<Rightarrow> bool) \<Rightarrow> string \<Rightarrow> cache_options \<Rightarrow> ResponseCache \<Rightarrow> int option \<times> ResponseCache" where
  "cache_management accepts action opts c =
     (if action = ''stats'' then (None, c)
      else if action = ''clear'' then (None, clear_cache c)
      else if action = ''config'' then
        (let current_config = config c;
             new_config = new_config_data opts current_config
         in if accepts new_config then (None, set_cache_config new_config c)
            else (Some 1, c))
      else (Some 1, c))"

section \<open>Concrete inputs\<close>

text \<open>A request, a live response, a client and an environment on which the theorems
  below are evaluated. The environment's cache holds at most one response and answers
  every lookup with it; its \<open>json.dumps\<close> raises for a top-level value that is a
  \<open>PObject\<close>.\<close>

definition demo_request :: "string \<Rightarrow> request" where
  "demo_request m =
     \<lparr> method = m, url = ''https://api.example.com/users'', headers = None,
       params = None, json_data = None, data = None, files = None \<rparr>"

definition demo_response :: "request \<Rightarrow> response" where
  "demo_response rq =
     \<lparr> status_code = 200, response_headers = [(''Content-Type'', ''application/json'')],
       content = ''{}'', origin = rq \<rparr>"

definition is_object :: "pyval \<Rightarrow> bool" where
  "is_object v = (case v of PObject r \<Rightarrow> True | _ \<Rightarrow> False)"

definition demo_json_dumps :: "pydict \<Rightarrow> exc + string" where
  "demo_json_dumps d =
     (if list_ex (\<lambda>kv. is_object (snd kv)) d
      then Inl (Exc TypeError (Text ''Object is not JSON serializable''))
      else Inr (concat (map fst d)))"

definition demo_env :: "(response option) collaborators" where
  "demo_env =
     \<lparr> get_cached_response = (\<lambda>c a. (Inr c, c)),
       cache_response = (\<lambda>c r. (None, Some r)),
       client_request = (\<lambda>rq. Inr (demo_response rq)),
       raise_for_status = (\<lambda>r. if 200 \<le> status_code r \<and> status_code r < 300 then None
                                else Some (Exc HTTPStatusError (Text ''status''))),
       json_dumps_sorted = demo_json_dumps,
       str_of_dict = (\<lambda>d. concat (map fst d)) \<rparr>"

definition demo_client :: HttpClient where
  "demo_client = HttpClient_init 30 True True True 100 20"

text \<open>A POST with an empty JSON dict and a form field, and a POST whose JSON data
  holds a \<open>datetime\<close>.\<close>

definition form_request :: request where
  "form_request =
     (demo_request ''POST'') \<lparr> json_data := Some [], data := Some [(''name'', PStr ''John'')] \<rparr>"

definition unserialisable_request :: request where
  "unserialisable_request =
     (demo_request ''POST'')
       \<lparr> json_data := Some [(''when'', PObject ''datetime.datetime(2024, 1, 1, 0, 0)'')] \<rparr>"



definition demo_cache :: ResponseCache where
  "demo_cache = \<lparr> config = CacheConfig_default ''/tmp/talkie'', index = [] \<rparr>"


text \<open>The index pair that an eligible store of \<open>(response, time)\<close> inserts.\<close>

definition stored_pair :: "cache_helpers \<Rightarrow> CacheConfig \<Rightarrow> response \<times> int \<Rightarrow> string \<times> index_entry" where
  "stored_pair H cfg rn = (key_of H (fst rn), new_entry H cfg (fst rn) (snd rn) None)"










text \<open>A constructor that rejects what the spec calls invalid values: a negative TTL or
  size, a \<open>max_entries\<close> that is not positive.\<close>

definition valid_config :: "CacheConfig \<Rightarrow> bool" where
  "valid_config cfg = (0 \<le> default_ttl cfg \<and> 0 < max_entries cfg \<and> 0 \<le> max_size_mb cfg)"

section \<open>Properties of the request pipeline\<close>

lemma upper_GET: "upper ''GET'' = ''GET''"
  by code_simp

lemma upper_get: "upper ''get'' = ''GET''"
  by code_simp

lemma upper_POST: "upper ''POST'' \<noteq> ''GET''"
  by code_simp

lemma demo_client_active: "cache_active demo_client"
  by (simp add: demo_client_def HttpClient_init_def cache_active_def)

lemma demo_lookup_arguments:
  "lookup_arguments demo_env (demo_request m)
     = Inr (m, ''https://api.example.com/users'', None, None, None)"
  by (simp add: lookup_arguments_def cache_body_def demo_request_def)

lemma demo_env_simps:
  "get_cached_response demo_env c a = (Inr c, c)"
  "cache_response demo_env c r = (None, Some r)"
  "client_request demo_env rq = Inr (demo_response rq)"
  "raise_for_status demo_env (demo_response rq) = None"
  by (simp_all add: demo_env_def demo_response_def)

lemma demo_run:
  "request demo_env demo_client None (demo_request m)
     = (Inr (demo_response (demo_request m)),
        (if upper m = ''GET'' then Some (demo_response (demo_request m)) else None),
        Lookup (m, ''https://api.example.com/users'', None, None, None)
          # NetworkCall (demo_request m)
          # (if upper m = ''GET'' then [Store (demo_response (demo_request m))] else []))"
proof -
  have sc: "store_condition demo_client (demo_request m) (demo_response (demo_request m))
              = (upper m = ''GET'')"
    by (simp add: store_condition_def demo_client_active demo_response_def demo_request_def)
  show ?thesis
    by (simp add: request_def execute_def check_status_def demo_client_active
        demo_lookup_arguments demo_env_simps sc)
qed

text \<open>
  Claim C3. Whenever the lookup is made (the cache is active and the cache body is
  built) and \<open>get_cached_response\<close> returns a response, \<open>HttpClient.request\<close> returns
  that response, and the trace of the run is the lookup alone: the underlying httpx
  client is not invoked.
\<close>

theorem cache_hit_short_circuits:
  assumes "cache_active cl"
    and "lookup_arguments env rq = Inr args"
    and "get_cached_response env c args = (Inr (Some cached), c')"
  shows "request env cl c rq = (Inr cached, c', [Lookup args])
         \<and> \<not> (\<exists>ev \<in> set (snd (snd (request env cl c rq))). is_network_call ev)"
  using assms by (simp add: request_def is_network_call_def)

theorem cache_hit_short_circuits_witness:
  "cache_active demo_client
   \<and> lookup_arguments demo_env (demo_request ''GET'')
       = Inr (''GET'', ''https://api.example.com/users'', None, None, None)
   \<and> request demo_env demo_client (Some (demo_response (demo_request ''GET'')))
         (demo_request ''GET'')
       = (Inr (demo_response (demo_request ''GET'')),
          Some (demo_response (demo_request ''GET'')),
          [Lookup (''GET'', ''https://api.example.com/users'', None, None, None)])"
proof -
  have h: "get_cached_response demo_env (Some (demo_response (demo_request ''GET'')))
             (''GET'', ''https://api.example.com/users'', None, None, None)
           = (Inr (Some (demo_response (demo_request ''GET''))),
              Some (demo_response (demo_request ''GET'')))"
    by (simp add: demo_env_def)
  show ?thesis
    using demo_client_active demo_lookup_arguments [of "''GET''"]
      cache_hit_short_circuits [OF demo_client_active demo_lookup_arguments h]
    by simp
qed

text \<open>
  Claim C4. A live response is handed to \<open>cache_response\<close> only if its status code is
  in 200..299, its body is shorter than 1 MiB and the upper-cased method is GET. For a
  network response that fails one of the three the run has no store step and the cache
  is left in the state in which the lookup (if any) left it, whatever the client, the
  cache and its configuration are.
\<close>

theorem store_only_qualifying_get:
  "(Store resp \<in> set (snd (snd (request env cl c rq))) \<longrightarrow>
      client_request env rq = Inr resp \<and> 200 \<le> status_code resp \<and> status_code resp < 300
      \<and> length (content resp) < 1024 * 1024 \<and> upper (method rq) = ''GET'')
   \<and> (client_request env rq = Inr resp
        \<and> \<not> (200 \<le> status_code resp \<and> status_code resp < 300
              \<and> length (content resp) < 1024 * 1024 \<and> upper (method rq) = ''GET'') \<longrightarrow>
      \<not> (\<exists>ev \<in> set (snd (snd (request env cl c rq))). is_store ev)
      \<and> fst (snd (request env cl c rq)) =
          (if cache_active cl
           then (case lookup_arguments env rq of
                   Inl e \<Rightarrow> c
                 | Inr args \<Rightarrow> snd (get_cached_response env c args))
           else c))"
  by (auto simp: request_def execute_def store_condition_def is_store_def
      split: sum.splits option.splits prod.splits if_splits)

theorem store_only_qualifying_get_witness:
  "Store (demo_response (demo_request ''get''))
     \<in> set (snd (snd (request demo_env demo_client None (demo_request ''get''))))
   \<and> upper (method (demo_request ''get'')) = ''GET''
   \<and> status_code (demo_response (demo_request ''get'')) = 200"
proof -
  have m: "method (demo_request ''get'') = ''get''"
    by (simp add: demo_request_def)
  have s: "status_code (demo_response (demo_request ''get'')) = 200"
    by (simp add: demo_response_def)
  show ?thesis
    using store_only_qualifying_get [of "demo_response (demo_request ''get'')" demo_env
        demo_client None "demo_request ''get''"]
    by (simp add: demo_run upper_get m s)
qed

text \<open>
  Claim C5. A client constructed with \<open>enable_cache=False\<close> makes the network call and
  nothing else: no lookup and no store appear in the trace, the cache state is the one
  the request started with, and a returned response is the live network response. The
  cache state \<open>c\<close>, and with it the cache's own configuration, is arbitrary.
\<close>

theorem disabled_client_bypasses_cache:
  "request env (HttpClient_init t v f False mc mk) c rq = (out, c', tr) \<Longrightarrow>
     c' = c \<and> tr = [NetworkCall rq] \<and> \<not> (\<exists>ev \<in> set tr. is_lookup ev \<or> is_store ev)
     \<and> (\<forall>r. out = Inr r \<longrightarrow> client_request env rq = Inr r)"
  by (auto simp: request_def execute_def store_condition_def cache_active_def
      HttpClient_init_def check_status_def is_store_def is_lookup_def
      split: sum.splits option.splits prod.splits if_splits)

theorem disabled_client_bypasses_cache_witness:
  "request demo_env (HttpClient_init 30 True True False 100 20)
      (Some (demo_response (demo_request ''GET''))) (demo_request ''GET'')
    = (Inr (demo_response (demo_request ''GET'')), Some (demo_response (demo_request ''GET'')),
       [NetworkCall (demo_request ''GET'')])"
  using disabled_client_bypasses_cache [of demo_env 30 True True 100 20
      "Some (demo_response (demo_request ''GET''))" "demo_request ''GET''"
      "fst (request demo_env (HttpClient_init 30 True True False 100 20)
      (Some (demo_response (demo_request ''GET''))) (demo_request ''GET''))"
      "fst (snd (request demo_env (HttpClient_init 30 True True False 100 20)
      (Some (demo_response (demo_request ''GET''))) (demo_request ''GET'')))"
      "snd (snd (request demo_env (HttpClient_init 30 True True False 100 20)
      (Some (demo_response (demo_request ''GET''))) (demo_request ''GET'')))"]
  by (simp add: request_def execute_def store_condition_def cache_active_def HttpClient_init_def
      demo_env_def check_status_def demo_response_def)

text \<open>
  Claim C10, as stated, at a request that carries an empty JSON dict and form data: the
  \<open>elif data:\<close> branch is taken and the body of the cache key is the string of the form
  data, not \<open>None\<close>.
\<close>

theorem empty_json_with_form_data_body:
  "json_data form_request = Some []
   \<and> cache_body demo_env form_request
       = Inr (Some (str_of_dict demo_env [(''name'', PStr ''John'')]))
   \<and> cache_body demo_env form_request \<noteq> Inr None"
  by (simp add: form_request_def demo_request_def cache_body_def)

text \<open>
  Claim C10, amended. With \<open>json_data\<close> an empty dict the body of the cache key, and
  with it every argument of the lookup (hence the cache key, whatever the key function
  is), is the one of the same call without \<open>json_data\<close>; it is \<open>None\<close> when the call
  carries no form data either (\<open>data\<close> is \<open>None\<close> or empty), and \<open>str(data)\<close> when
  \<open>data\<close> is a non-empty dict.
\<close>

theorem empty_json_same_as_no_json:
  "json_data rq = Some [] \<Longrightarrow>
     cache_body env rq = cache_body env (rq \<lparr> json_data := None \<rparr>)
     \<and> lookup_arguments env rq = lookup_arguments env (rq \<lparr> json_data := None \<rparr>)
     \<and> (\<not> truthy (data rq) \<longrightarrow> cache_body env rq = Inr None)
     \<and> (\<forall>d. data rq = Some d \<and> d \<noteq> [] \<longrightarrow> cache_body env rq = Inr (Some (str_of_dict env d)))"
proof -
  assume j: "json_data rq = Some []"
  have t: "truthy (Some d)" if "d \<noteq> []" for d :: pydict
    using that by (cases d) simp_all
  have cb: "cache_body env rq = cache_body env (rq \<lparr> json_data := None \<rparr>)"
    using j by (simp add: cache_body_def)
  have la: "lookup_arguments env rq = lookup_arguments env (rq \<lparr> json_data := None \<rparr>)"
    by (simp add: lookup_arguments_def cb split: sum.splits)
  have n: "\<not> truthy (data rq) \<longrightarrow> cache_body env rq = Inr None"
    using j by (simp add: cache_body_def)
  have d: "\<forall>d. data rq = Some d \<and> d \<noteq> [] \<longrightarrow>
             cache_body env rq = Inr (Some (str_of_dict env d))"
    using j t by (simp add: cache_body_def)
  show ?thesis
    using cb la n d by blast
qed

theorem empty_json_same_as_no_json_witness:
  "json_data form_request = Some []
   \<and> lookup_arguments demo_env form_request
       = lookup_arguments demo_env (form_request \<lparr> json_data := None \<rparr>)
   \<and> cache_body demo_env form_request
       = Inr (Some (str_of_dict demo_env [(''name'', PStr ''John'')]))
   \<and> json_data ((demo_request ''POST'') \<lparr> json_data := Some [] \<rparr>) = Some []
   \<and> cache_body demo_env ((demo_request ''POST'') \<lparr> json_data := Some [] \<rparr>) = Inr None"
proof -
  have a: "json_data form_request = Some []"
    by (simp add: form_request_def)
  have a': "data form_request = Some [(''name'', PStr ''John'')]
              \<and> [(''name'', PStr ''John'')] \<noteq> ([] :: pydict)"
    by (simp add: form_request_def)
  have b: "json_data ((demo_request ''POST'') \<lparr> json_data := Some [] \<rparr>) = Some []"
    by simp
  have c: "\<not> truthy (data ((demo_request ''POST'') \<lparr> json_data := Some [] \<rparr>))"
    by (simp add: demo_request_def)
  show ?thesis
    using a a' b c empty_json_same_as_no_json [OF a, of demo_env]
      empty_json_same_as_no_json [OF b, of demo_env] by blast
qed

text \<open>
  Claim C2, as stated, at a POST: the pipeline looks the request up, the network answers
  200 with a two-byte body, and the run has no store step.
\<close>

theorem post_looked_up_never_stored:
  "cache_active demo_client
   \<and> snd (snd (request demo_env demo_client None (demo_request ''POST'')))
       = [Lookup (''POST'', ''https://api.example.com/users'', None, None, None),
          NetworkCall (demo_request ''POST'')]
   \<and> client_request demo_env (demo_request ''POST'') = Inr (demo_response (demo_request ''POST''))
   \<and> status_code (demo_response (demo_request ''POST'')) = 200
   \<and> length (content (demo_response (demo_request ''POST''))) < 1024 * 1024"
  by (simp add: demo_run upper_POST demo_client_active demo_env_simps demo_response_def)

text \<open>
  Claim C2, amended. With the cache active every request whose cache body is built is
  looked up, whatever its method; when \<open>json.dumps\<close> raises while the body is built,
  the exception leaves \<open>request\<close> before any call of the cache or of the network. A
  response is handed to the store only for a request whose upper-cased method is GET,
  and only when its status is 2xx and its body is shorter than 1 MiB. So every request
  whose response is stored has been looked up, and a request of any other method is
  never stored.
\<close>

theorem store_implies_lookup:
  "(cache_active cl \<and> lookup_arguments env rq = Inr args \<longrightarrow>
      Lookup args \<in> set (snd (snd (request env cl c rq))))
   \<and> (cache_active cl \<and> lookup_arguments env rq = Inl e \<longrightarrow>
        request env cl c rq = (Inl e, c, []))
   \<and> (Store resp \<in> set (snd (snd (request env cl c rq))) \<longrightarrow>
        (\<exists>args. lookup_arguments env rq = Inr args
                \<and> Lookup args \<in> set (snd (snd (request env cl c rq))))
        \<and> upper (method rq) = ''GET''
        \<and> 200 \<le> status_code resp \<and> status_code resp < 300
        \<and> length (content resp) < 1024 * 1024)
   \<and> (upper (method rq) \<noteq> ''GET'' \<longrightarrow>
        \<not> (\<exists>ev \<in> set (snd (snd (request env cl c rq))). is_store ev))"
  by (auto simp: request_def execute_def store_condition_def is_store_def
      split: sum.splits option.splits prod.splits if_splits)

theorem store_implies_lookup_witness:
  "cache_active demo_client
   \<and> lookup_arguments demo_env (demo_request ''GET'')
       = Inr (''GET'', ''https://api.example.com/users'', None, None, None)
   \<and> Store (demo_response (demo_request ''GET''))
       \<in> set (snd (snd (request demo_env demo_client None (demo_request ''GET''))))
   \<and> Lookup (''GET'', ''https://api.example.com/users'', None, None, None)
       \<in> set (snd (snd (request demo_env demo_client None (demo_request ''GET''))))
   \<and> upper (method (demo_request ''POST'')) \<noteq> ''GET''
   \<and> \<not> (\<exists>ev \<in> set (snd (snd (request demo_env demo_client None (demo_request ''POST'')))).
            is_store ev)
   \<and> lookup_arguments demo_env unserialisable_request
       = Inl (Exc TypeError (Text ''Object is not JSON serializable''))
   \<and> request demo_env demo_client None unserialisable_request
       = (Inl (Exc TypeError (Text ''Object is not JSON serializable'')), None, [])"
proof -
  have a: "Store (demo_response (demo_request ''GET''))
       \<in> set (snd (snd (request demo_env demo_client None (demo_request ''GET''))))"
    by (simp add: demo_run upper_GET)
  have b: "upper (method (demo_request ''POST'')) \<noteq> ''GET''"
    by (simp add: demo_request_def upper_POST)
  have u: "lookup_arguments demo_env unserialisable_request
             = Inl (Exc TypeError (Text ''Object is not JSON serializable''))"
    by (simp add: lookup_arguments_def cache_body_def unserialisable_request_def
        demo_request_def demo_env_def demo_json_dumps_def is_object_def)
  show ?thesis
    using demo_client_active a b u demo_lookup_arguments [of "''GET''"]
      store_implies_lookup [of demo_client demo_env "demo_request ''GET''"
        "(''GET'', ''https://api.example.com/users'', None, None, None)" None
        "Exc TypeError (Text ''Object is not JSON serializable'')"
        "demo_response (demo_request ''GET'')"]
      store_implies_lookup [of demo_client demo_env "demo_request ''POST''"
        "(''POST'', ''https://api.example.com/users'', None, None, None)" None
        "Exc TypeError (Text ''Object is not JSON serializable'')"
        "demo_response (demo_request ''POST'')"]
      store_implies_lookup [of demo_client demo_env unserialisable_request
        "(''POST'', ''https://api.example.com/users'', None, None, None)" None
        "Exc TypeError (Text ''Object is not JSON serializable'')"
        "demo_response (demo_request ''POST'')"]
    by blast
qed

section \<open>The pipeline over the response cache of the spec\<close>











section \<open>Properties of the cache command\<close>

text \<open>
  Claim C8. A run of \<open>cache config\<close> whose new configuration the constructor accepts
  returns normally and installs a configuration in which each field with a given
  option has the option's value and every other field, \<open>cache_post\<close> and \<open>cache_dir\<close>
  among them, has the value of the previously active configuration; the index is
  untouched. A run that does not return normally installs nothing.
\<close>

theorem config_action_replaces_whole:
  "(accepts (new_config_data opts (config c)) \<longrightarrow>
      fst (cache_management accepts ''config'' opts c) = None)
   \<and> (fst (cache_management accepts ''config'' opts c) = None \<longrightarrow>
      (let new = config (snd (cache_management accepts ''config'' opts c)); old = config c
       in default_ttl new = (case opt_ttl opts of Some v \<Rightarrow> v | None \<Rightarrow> default_ttl old)
        \<and> max_entries new = (case opt_max_entries opts of Some v \<Rightarrow> v | None \<Rightarrow> max_entries old)
        \<and> max_size_mb new = (case opt_max_size opts of Some v \<Rightarrow> v | None \<Rightarrow> max_size_mb old)
        \<and> enabled new = (case opt_enable opts of Some v \<Rightarrow> v | None \<Rightarrow> enabled old)
        \<and> cache_get new = (case opt_cache_get opts of Some v \<Rightarrow> v | None \<Rightarrow> cache_get old)
        \<and> cache_graphql new
            = (case opt_cache_graphql opts of Some v \<Rightarrow> v | None \<Rightarrow> cache_graphql old)
        \<and> cache_post new = cache_post old
        \<and> cache_dir new = cache_dir old)
      \<and> index (snd (cache_management accepts ''config'' opts c)) = index c)
   \<and> (fst (cache_management accepts ''config'' opts c) \<noteq> None \<longrightarrow>
        snd (cache_management accepts ''config'' opts c) = c)"
  by (auto simp: cache_management_def new_config_data_def set_cache_config_def Let_def
      split: option.splits)

theorem config_action_replaces_whole_witness:
  "valid_config (new_config_data (no_options \<lparr> opt_ttl := Some 600, opt_max_entries := Some 100 \<rparr>)
      (config demo_cache))
   \<and> cache_management valid_config ''config''
        (no_options \<lparr> opt_ttl := Some 600, opt_max_entries := Some 100 \<rparr>) demo_cache
      = (None, \<lparr> config = \<lparr> enabled = True, default_ttl = 600, max_entries = 100,
                            max_size_mb = 100, cache_get = True, cache_post = False,
                            cache_graphql = True, cache_dir = ''/tmp/talkie'' \<rparr>,
                 index = [] \<rparr>)"
  using config_action_replaces_whole [of valid_config "no_options \<lparr> opt_ttl := Some 600, opt_max_entries := Some 100 \<rparr>"
      demo_cache]
  by (simp add: cache_management_def new_config_data_def set_cache_config_def no_options_def
      demo_cache_def CacheConfig_default_def valid_config_def)

text \<open>
  Claim C9, as stated, fails for \<open>cache_post\<close>: no action, no options, no cache and no
  constructor make \<open>cache_management\<close> change that flag.
\<close>

theorem no_invocation_updates_cache_post:
  "\<not> (\<exists>accepts action opts c.
         cache_post (config (snd (cache_management accepts action opts c)))
           \<noteq> cache_post (config c))"
  by (auto simp: cache_management_def new_config_data_def set_cache_config_def clear_cache_def
      Let_def split: option.splits)

text \<open>
  Claim C9, amended. For each of \<open>default_ttl\<close>, \<open>max_entries\<close>, \<open>max_size_mb\<close>,
  \<open>enabled\<close>, \<open>cache_get\<close> and \<open>cache_graphql\<close> and each value that the constructor
  accepts there is an invocation of \<open>cache config\<close> that installs the current
  configuration with that field set to that value; \<open>cache_post\<close> keeps its value under
  every invocation.
\<close>

theorem config_action_reachable_fields:
  "(accepts ((config c) \<lparr> default_ttl := t \<rparr>) \<longrightarrow>
      (\<exists>opts. cache_management accepts ''config'' opts c
                = (None, c \<lparr> config := (config c) \<lparr> default_ttl := t \<rparr> \<rparr>)))
   \<and> (accepts ((config c) \<lparr> max_entries := n \<rparr>) \<longrightarrow>
      (\<exists>opts. cache_management accepts ''config'' opts c
                = (None, c \<lparr> config := (config c) \<lparr> max_entries := n \<rparr> \<rparr>)))
   \<and> (accepts ((config c) \<lparr> max_size_mb := s \<rparr>) \<longrightarrow>
      (\<exists>opts. cache_management accepts ''config'' opts c
                = (None, c \<lparr> config := (config c) \<lparr> max_size_mb := s \<rparr> \<rparr>)))
   \<and> (accepts ((config c) \<lparr> enabled := b \<rparr>) \<longrightarrow>
      (\<exists>opts. cache_management accepts ''config'' opts c
                = (None, c \<lparr> config := (config c) \<lparr> enabled := b \<rparr> \<rparr>)))
   \<and> (accepts ((config c) \<lparr> cache_get := b \<rparr>) \<longrightarrow>
      (\<exists>opts. cache_management accepts ''config'' opts c
                = (None, c \<lparr> config := (config c) \<lparr> cache_get := b \<rparr> \<rparr>)))
   \<and> (accepts ((config c) \<lparr> cache_graphql := b \<rparr>) \<longrightarrow>
      (\<exists>opts. cache_management accepts ''config'' opts c
                = (None, c \<lparr> config := (config c) \<lparr> cache_graphql := b \<rparr> \<rparr>)))
   \<and> cache_post (config (snd (cache_management accepts action given c))) = cache_post (config c)"
proof -
  have run: "accepts (new_config_data opts (config c)) \<Longrightarrow>
      cache_management accepts ''config'' opts c
        = (None, c \<lparr> config := new_config_data opts (config c) \<rparr>)" for opts
    by (simp add: cache_management_def set_cache_config_def Let_def)
  have 1: "new_config_data (no_options \<lparr> opt_ttl := Some t \<rparr>) (config c)
             = (config c) \<lparr> default_ttl := t \<rparr>"
    by (simp add: new_config_data_def no_options_def)
  have 2: "new_config_data (no_options \<lparr> opt_max_entries := Some n \<rparr>) (config c)
             = (config c) \<lparr> max_entries := n \<rparr>"
    by (simp add: new_config_data_def no_options_def)
  have 3: "new_config_data (no_options \<lparr> opt_max_size := Some s \<rparr>) (config c)
             = (config c) \<lparr> max_size_mb := s \<rparr>"
    by (simp add: new_config_data_def no_options_def)
  have 4: "new_config_data (no_options \<lparr> opt_enable := Some b \<rparr>) (config c)
             = (config c) \<lparr> enabled := b \<rparr>"
    by (simp add: new_config_data_def no_options_def)
  have 5: "new_config_data (no_options \<lparr> opt_cache_get := Some b \<rparr>) (config c)
             = (config c) \<lparr> cache_get := b \<rparr>"
    by (simp add: new_config_data_def no_options_def)
  have 6: "new_config_data (no_options \<lparr> opt_cache_graphql := Some b \<rparr>) (config c)
             = (config c) \<lparr> cache_graphql := b \<rparr>"
    by (simp add: new_config_data_def no_options_def)
  have 7: "cache_post (config (snd (cache_management accepts action given c)))
             = cache_post (config c)"
    by (auto simp: cache_management_def new_config_data_def set_cache_config_def
        clear_cache_def Let_def split: option.splits)
  show ?thesis
    using run [of "no_options \<lparr> opt_ttl := Some t \<rparr>"]
      run [of "no_options \<lparr> opt_max_entries := Some n \<rparr>"]
      run [of "no_options \<lparr> opt_max_size := Some s \<rparr>"]
      run [of "no_options \<lparr> opt_enable := Some b \<rparr>"]
      run [of "no_options \<lparr> opt_cache_get := Some b \<rparr>"]
      run [of "no_options \<lparr> opt_cache_graphql := Some b \<rparr>"]
    unfolding 1 2 3 4 5 6 using 7 by blast
qed

theorem config_action_reachable_fields_witness:
  "valid_config ((config demo_cache) \<lparr> cache_get := False \<rparr>)
   \<and> valid_config ((config demo_cache) \<lparr> cache_graphql := False \<rparr>)
   \<and> (\<exists>opts. cache_management valid_config ''config'' opts demo_cache
               = (None, demo_cache \<lparr> config := (config demo_cache) \<lparr> cache_get := False \<rparr> \<rparr>))
   \<and> (\<exists>opts. cache_management valid_config ''config'' opts demo_cache
               = (None, demo_cache \<lparr> config := (config demo_cache) \<lparr> cache_graphql := False \<rparr> \<rparr>))
   \<and> cache_post (config (snd (cache_management valid_config ''config''
          (no_options \<lparr> opt_enable := Some False \<rparr>) demo_cache)))
       = cache_post (config demo_cache)"
proof -
  have a: "valid_config ((config demo_cache) \<lparr> cache_get := False \<rparr>)"
    by (simp add: valid_config_def demo_cache_def CacheConfig_default_def)
  have b: "valid_config ((config demo_cache) \<lparr> cache_graphql := False \<rparr>)"
    by (simp add: valid_config_def demo_cache_def CacheConfig_default_def)
  show ?thesis
    using a b
      config_action_reachable_fields [where accepts = valid_config
        and c = demo_cache and b = False and action = "''config''"
        and given = "no_options \<lparr> opt_enable := Some False \<rparr>"]
    by blast
qed

section \<open>Properties of the response cache\<close>









lemma config_cache_response_spec [simp]:
  "config (cache_response_spec H c resp now ttl) = config c"
  by (simp add: cache_response_spec_def)

lemma config_store_each [simp]: "config (store_each H c rs) = config c"
proof (induction rs rule: rev_induct)
  case Nil
  then show ?case by (simp add: store_each_def)
next
  case (snoc x xs)
  then show ?case by (simp add: store_each_def split: prod.splits)
qed




lemma fst_stored_pair [simp]: "fst (stored_pair H cfg rn) = key_of H (fst rn)"
  by (simp add: stored_pair_def)









lemma cached_at_new_entry [simp]: "cached_at (payload (new_entry H cfg resp now ttl)) = now"
  by (simp add: new_entry_def Let_def split: prod.splits)














end
